theory Spec2Isabelle
  imports Complex_Main "HOL-Library.Sublist"
begin

section \<open>Numbers and strings of the scripting runtime\<close>





text \<open>\<open>Math.round\<close>: the nearest integer, a half rounding towards plus infinity.\<close>

definition Math_round :: "real \<Rightarrow> real" where
  "Math_round x = of_int \<lfloor>x + 1 / 2\<rfloor>"


definition isDigit :: "char \<Rightarrow> bool" where
  "isDigit c = (c \<in> set ''0123456789'')"

definition digitVal :: "char \<Rightarrow> nat" where
  "digitVal c = (of_char c :: nat) - 48"

definition lowerChar :: "char \<Rightarrow> char" where
  "lowerChar c =
     (case map_of (zip ''ABCDEFGHIJKLMNOPQRSTUVWXYZ'' ''abcdefghijklmnopqrstuvwxyz'') c of
        Some d \<Rightarrow> d
      | None \<Rightarrow> c)"

definition toLowerCase :: "string \<Rightarrow> string" where
  "toLowerCase s = map lowerChar s"

definition isSpace :: "char \<Rightarrow> bool" where
  "isSpace c = (c \<in> {CHR '' '', CHR 0x09, CHR 0x0A, CHR 0x0B, CHR 0x0C, CHR 0x0D})"

definition trim :: "string \<Rightarrow> string" where
  "trim s = rev (dropWhile isSpace (rev (dropWhile isSpace s)))"

text \<open>\<open>s.includes(t)\<close>: \<open>t\<close> occurs in \<open>s\<close> as a contiguous substring.\<close>

fun str_includes :: "string \<Rightarrow> string \<Rightarrow> bool" where
  "str_includes [] t = (t = [])"
| "str_includes (c # s) t = (prefix t (c # s) \<or> str_includes s t)"

text \<open>\<open>xs.join(sep)\<close>.\<close>

fun join :: "string \<Rightarrow> string list \<Rightarrow> string" where
  "join sep [] = []"
| "join sep [x] = x"
| "join sep (x # y # ys) = x @ sep @ join sep (y # ys)"

subsection \<open>The price pattern\<close>

text \<open>
  All three engines read a price with
  \<^verbatim>\<open>pricing.match(/\$?(\d+(?:\.\d{2})?)/)\<close> and \<^verbatim>\<open>parseFloat(match[1])\<close>.
  A match needs a digit at its first or (after a dollar sign) second position, so the
  leftmost match captures from the first digit of the string: the maximal run of digits
  there, and a dot with the next two digits when they follow.
\<close>

definition captureAt :: "string \<Rightarrow> string" where
  "captureAt s =
     takeWhile isDigit s @
     (case dropWhile isDigit s of
        d # a # b # _ \<Rightarrow> if d = CHR ''.'' \<and> isDigit a \<and> isDigit b then [d, a, b] else []
      | _ \<Rightarrow> [])"

fun matchPrice :: "string \<Rightarrow> string option" where
  "matchPrice [] = None"
| "matchPrice (c # cs) = (if isDigit c then Some (captureAt (c # cs)) else matchPrice cs)"

text \<open>
  \<open>parseFloat\<close> on a decimal literal \<open>digits\<close> or \<open>digits.digits\<close>, the only shapes the
  capture group takes.
\<close>

definition digitsValue :: "string \<Rightarrow> nat" where
  "digitsValue ds = foldl (\<lambda>a c. 10 * a + digitVal c) 0 ds"

definition parseFloat :: "string \<Rightarrow> real" where
  "parseFloat s =
     (let ip = takeWhile isDigit s;
          fp = takeWhile isDigit (drop 1 (dropWhile isDigit s))
      in real (digitsValue ip) + real (digitsValue fp) / 10 ^ length fp)"

text \<open>The three private copies of \<open>extractPrice\<close>, one per engine class.\<close>

definition AIRecommendationEngine_extractPrice :: "string \<Rightarrow> real" where
  "AIRecommendationEngine_extractPrice pricing =
     (case matchPrice pricing of Some m \<Rightarrow> parseFloat m | None \<Rightarrow> 0)"

definition ROICalculator_extractPrice :: "string \<Rightarrow> real" where
  "ROICalculator_extractPrice pricing =
     (case matchPrice pricing of Some m \<Rightarrow> parseFloat m | None \<Rightarrow> 0)"

definition ToolStackBuilder_extractPrice :: "string \<Rightarrow> real" where
  "ToolStackBuilder_extractPrice pricing =
     (case matchPrice pricing of Some m \<Rightarrow> parseFloat m | None \<Rightarrow> 0)"

section \<open>Data model\<close>

text \<open>
  Modelled from the spec: the \<open>Tool\<close> type (\<open>types/tool\<close>) and the catalog
  (\<open>data/tools\<close>) are not among the sources. The spec gives a tool as
  \<open>{id, name, category, subcategory?, description, pricing, tags[], rating?, url, ...}\<close>;
  the engines guard \<open>tags\<close> and \<open>rating\<close> as optional. The catalog is a parameter of
  every function that imports it. Of \<open>UserProfile\<close> and \<open>RecommendationContext\<close> the
  fields the engines read are kept.
\<close>

record Tool =
  tool_id :: string
  name :: string
  category :: string
  subcategory :: "string option"
  description :: string
  pricing :: string
  tags :: "string list option"
  rating :: "real option"

datatype Experience = Beginner | Intermediate | Expert

datatype TeamSize = Solo | Small | Medium | Large | Enterprise

record Budget =
  monthly :: real
  annual :: real
  currency :: string

record ToolPreferences =
  easeOfUse :: real
  priceSensitivity :: real
  featureRichness :: real
  integrationNeeds :: real

record UserProfile =
  userId :: string
  industry :: string
  experience :: Experience
  teamSize :: TeamSize
  budget :: Budget
  primaryGoals :: "string list"
  toolPreferences :: ToolPreferences

record ToolInteraction =
  interaction_toolId :: string

record RecommendationContext =
  userProfile :: UserProfile
  currentSearch :: "string option"
  recentInteractions :: "ToolInteraction list"

record Factors =
  budgetMatch :: real
  experienceMatch :: real
  goalAlignment :: real
  industryRelevance :: real
  popularityScore :: real
  roiPotential :: real
  learningCurve :: real
  integrationScore :: real

text \<open>
  The reasoning strings are kept in structured form: which sentence, with the values its
  template interpolates.
\<close>

datatype Reason =
    FitsBudget string real
  | PerfectForLevel Experience
  | AlignsWithGoals "string list"
  | PopularInIndustry string
  | HighROIPotential

datatype RecommendedFor = BudgetFriendly | PerfectForUsers Experience | GoalAligned

datatype LearningCurve = Easy | MediumCurve | Hard

record RecommendationScore =
  rs_tool :: Tool
  rs_score :: real
  rs_factors :: Factors
  rs_reasoning :: "Reason list"
  rs_alternatives :: "Tool list"
  rs_estimatedROI :: real
  rs_timeToValue :: real
  rs_confidence :: real

text \<open>
  A \<open>ToolRecommendation\<close> also carries a random \<open>id\<close> and a \<open>timestamp\<close>; both come from
  the environment (\<open>Math.random\<close>, the clock), nothing reads them back, and they are not
  part of the model.
\<close>

record ToolRecommendation =
  rec_toolId :: string
  rec_confidence :: real
  rec_reasoning :: "Reason list"
  rec_alternatives :: "string list"
  rec_estimatedROI :: real
  rec_timeToValue :: real
  rec_learningCurve :: LearningCurve
  rec_recommendedFor :: "RecommendedFor list"

section \<open>The recommendation engine\<close>

text \<open>\<open>tool.tags?.some(p)\<close>: falsy when the tool has no tags.\<close>

definition tagsSome :: "(string \<Rightarrow> bool) \<Rightarrow> Tool \<Rightarrow> bool" where
  "tagsSome p tool = (case tags tool of None \<Rightarrow> False | Some ts \<Rightarrow> list_ex p ts)"

text \<open>
  The template \<^verbatim>\<open>`${tool.name} ${tool.description} ${tool.tags?.join(' ')}`\<close>: a missing
  tag list is interpolated as the word \<open>undefined\<close>.
\<close>

definition toolText :: "Tool \<Rightarrow> string" where
  "toolText tool =
     toLowerCase (name tool @ '' '' @ description tool @ '' '' @
       (case tags tool of None \<Rightarrow> ''undefined'' | Some ts \<Rightarrow> join '' '' ts))"

definition calculateBudgetMatch :: "Tool \<Rightarrow> UserProfile \<Rightarrow> real" where
  "calculateBudgetMatch tool profile =
     (let toolPrice = AIRecommendationEngine_extractPrice (pricing tool);
          userBudget = monthly (budget profile)
      in if toolPrice = 0 then 1.0
         else if toolPrice \<le> userBudget * 0.3 then 1.0
         else if toolPrice \<le> userBudget * 0.6 then 0.8
         else if toolPrice \<le> userBudget then 0.6
         else 0.2)"

definition estimateToolComplexity :: "Tool \<Rightarrow> real" where
  "estimateToolComplexity tool =
     (let complexityIndicators =
            [str_includes (description tool) ''enterprise'',
             str_includes (description tool) ''advanced'',
             str_includes (description tool) ''complex'',
             tagsSome (\<lambda>tag. str_includes tag ''enterprise'') tool,
             tagsSome (\<lambda>tag. str_includes tag ''advanced'') tool]
      in real (length (filter (\<lambda>b. b) complexityIndicators)) / 5)"

fun complexityMap :: "Experience \<Rightarrow> real" where
  "complexityMap Beginner = 0.3"
| "complexityMap Intermediate = 0.6"
| "complexityMap Expert = 0.9"

definition calculateExperienceMatch :: "Tool \<Rightarrow> UserProfile \<Rightarrow> real" where
  "calculateExperienceMatch tool profile =
     (let userLevel = complexityMap (experience profile);
          toolComplexity = estimateToolComplexity tool
      in 1 - \<bar>userLevel - toolComplexity\<bar>)"

text \<open>One round of the \<open>forEach\<close> over the user's goals.\<close>

definition goalStep :: "Tool \<Rightarrow> real \<Rightarrow> string \<Rightarrow> real" where
  "goalStep tool alignmentScore goal =
     (let toolTags = (case tags tool of None \<Rightarrow> [] | Some ts \<Rightarrow> ts);
          toolDescription = toLowerCase (description tool);
          goalLower = toLowerCase goal;
          s1 = (if list_ex (\<lambda>tag. str_includes (toLowerCase tag) goalLower) toolTags
                then alignmentScore + 0.4 else alignmentScore);
          s2 = (if str_includes toolDescription goalLower then s1 + 0.3 else s1);
          s3 = (if str_includes (toLowerCase (category tool)) goalLower then s2 + 0.3 else s2)
      in s3)"

definition calculateGoalAlignment :: "Tool \<Rightarrow> RecommendationContext \<Rightarrow> real" where
  "calculateGoalAlignment tool context =
     min (foldl (goalStep tool) 0 (primaryGoals (userProfile context))) 1.0"

definition industryMap :: "(string \<times> string list) list" where
  "industryMap =
     [(''Technology'', [''software'', ''tech'', ''development'', ''coding'', ''programming'']),
      (''Marketing'', [''marketing'', ''advertising'', ''social media'', ''campaign'', ''brand'']),
      (''Finance'', [''finance'', ''accounting'', ''budgeting'', ''investment'', ''banking'']),
      (''Healthcare'', [''health'', ''medical'', ''patient'', ''clinical'', ''diagnosis'']),
      (''Education'', [''education'', ''learning'', ''teaching'', ''student'', ''course'']),
      (''E-commerce'', [''ecommerce'', ''retail'', ''sales'', ''inventory'', ''shipping''])]"

definition getIndustryKeywords :: "string \<Rightarrow> string list" where
  "getIndustryKeywords ind =
     (case map_of industryMap ind of Some ks \<Rightarrow> ks | None \<Rightarrow> [toLowerCase ind])"

definition calculateIndustryRelevance :: "Tool \<Rightarrow> UserProfile \<Rightarrow> real" where
  "calculateIndustryRelevance tool profile =
     (let industryKeywords = getIndustryKeywords (industry profile);
          relevanceScore =
            real (length (filter (\<lambda>keyword. str_includes (toolText tool) (toLowerCase keyword))
                            industryKeywords))
              / real (length industryKeywords)
      in min relevanceScore 1.0)"

definition calculatePopularityScore :: "Tool \<Rightarrow> real" where
  "calculatePopularityScore tool = (case rating tool of None \<Rightarrow> 0 | Some r \<Rightarrow> r) / 5.0"

definition industryROIMultipliers :: "(string \<times> real) list" where
  "industryROIMultipliers =
     [(''Technology'', 1.5), (''Finance'', 1.3), (''Marketing'', 1.2),
      (''Healthcare'', 1.1), (''Education'', 0.9), (''E-commerce'', 1.4)]"

definition getIndustryROIMultiplier :: "string \<Rightarrow> real" where
  "getIndustryROIMultiplier ind =
     (case map_of industryROIMultipliers ind of Some m \<Rightarrow> m | None \<Rightarrow> 1.0)"

fun getTeamSizeMultiplier :: "TeamSize \<Rightarrow> real" where
  "getTeamSizeMultiplier Solo = 0.8"
| "getTeamSizeMultiplier Small = 1.0"
| "getTeamSizeMultiplier Medium = 1.2"
| "getTeamSizeMultiplier Large = 1.4"
| "getTeamSizeMultiplier Enterprise = 1.6"

definition calculateROIPotential :: "Tool \<Rightarrow> UserProfile \<Rightarrow> real" where
  "calculateROIPotential tool profile =
     (let baseROI = 0.5;
          industryMultiplier = getIndustryROIMultiplier (industry profile);
          teamSizeMultiplier = getTeamSizeMultiplier (teamSize profile)
      in baseROI * industryMultiplier * teamSizeMultiplier)"

definition calculateLearningCurveScore :: "Tool \<Rightarrow> UserProfile \<Rightarrow> real" where
  "calculateLearningCurveScore tool profile =
     (let experienceLevel = experience profile;
          toolComplexity = estimateToolComplexity tool
      in if experienceLevel = Beginner \<and> toolComplexity < 0.4 then 1.0
         else if experienceLevel = Intermediate \<and> toolComplexity \<ge> 0.3 \<and> toolComplexity \<le> 0.7
           then 1.0
         else if experienceLevel = Expert \<and> toolComplexity > 0.6 then 1.0
         else 0.5)"

definition calculateIntegrationScore :: "Tool \<Rightarrow> UserProfile \<Rightarrow> real" where
  "calculateIntegrationScore tool profile =
     (let needs = integrationNeeds (toolPreferences profile);
          hasIntegrations =
            tagsSome (\<lambda>tag. str_includes (toLowerCase tag) ''api'' \<or>
                             str_includes (toLowerCase tag) ''integration'' \<or>
                             str_includes (toLowerCase tag) ''zapier'') tool
      in if needs > 7 \<and> hasIntegrations then 1.0
         else if needs < 4 \<and> \<not> hasIntegrations then 1.0
         else 0.5)"

definition generateReasoning :: "Factors \<Rightarrow> Tool \<Rightarrow> RecommendationContext \<Rightarrow> Reason list" where
  "generateReasoning fs tool context =
     (let profile = userProfile context in
      (if budgetMatch fs > 0.8
         then [FitsBudget (currency (budget profile)) (monthly (budget profile))] else []) @
      (if experienceMatch fs > 0.8 then [PerfectForLevel (experience profile)] else []) @
      (if goalAlignment fs > 0.7 then [AlignsWithGoals (take 2 (primaryGoals profile))] else []) @
      (if industryRelevance fs > 0.7 then [PopularInIndustry (industry profile)] else []) @
      (if roiPotential fs > 0.7 then [HighROIPotential] else []))"

definition findAlternatives :: "Tool list \<Rightarrow> Tool \<Rightarrow> RecommendationContext \<Rightarrow> Tool list" where
  "findAlternatives tools tool context =
     take 3 (filter (\<lambda>t. tool_id t \<noteq> tool_id tool \<and> category t = category tool \<and>
                         (case rating t of None \<Rightarrow> False | Some r \<Rightarrow> r \<ge> 4.0)) tools)"

definition estimateROI :: "Tool \<Rightarrow> UserProfile \<Rightarrow> real" where
  "estimateROI tool profile =
     (let baseROI = 150;
          industryMultiplier = getIndustryROIMultiplier (industry profile);
          teamSizeMultiplier = getTeamSizeMultiplier (teamSize profile)
      in Math_round (baseROI * industryMultiplier * teamSizeMultiplier))"

definition estimateTimeToValue :: "Tool \<Rightarrow> UserProfile \<Rightarrow> real" where
  "estimateTimeToValue tool profile =
     (let complexity = estimateToolComplexity tool;
          level = experience profile;
          baseDays = (if complexity < 0.3 then 7 else if complexity < 0.6 then 14 else 45);
          baseDays1 = (if level = Expert then baseDays * 0.7 else baseDays);
          baseDays2 = (if level = Beginner then baseDays1 * 1.5 else baseDays1)
      in Math_round baseDays2)"

text \<open>\<open>Object.values(factors)\<close>, in the order the literal lists its keys.\<close>

definition factorValues :: "Factors \<Rightarrow> real list" where
  "factorValues fs =
     [budgetMatch fs, experienceMatch fs, goalAlignment fs, industryRelevance fs,
      popularityScore fs, roiPotential fs, learningCurve fs, integrationScore fs]"

definition calculateConfidence :: "Factors \<Rightarrow> RecommendationContext \<Rightarrow> real" where
  "calculateConfidence fs context =
     (let factorScores = factorValues fs;
          averageScore = foldl (\<lambda>a b. a + b) 0 factorScores / real (length factorScores);
          dataQuality = min (real (length (recentInteractions context)) / 10) 1
      in min (averageScore * (0.7 + 0.3 * dataQuality)) 1.0)"

text \<open>
  \<open>Object.entries(factors)\<close>, each value paired with the entry of \<open>weights\<close> under the
  same key; the \<open>reduce\<close> adds the products from the left, starting at 0.
\<close>

definition weightedEntries :: "Factors \<Rightarrow> (real \<times> real) list" where
  "weightedEntries fs =
     [(budgetMatch fs, 0.15), (experienceMatch fs, 0.12), (goalAlignment fs, 0.20),
      (industryRelevance fs, 0.10), (popularityScore fs, 0.08), (roiPotential fs, 0.15),
      (learningCurve fs, 0.10), (integrationScore fs, 0.10)]"

definition calculateFactors :: "Tool \<Rightarrow> RecommendationContext \<Rightarrow> Factors" where
  "calculateFactors tool context =
     \<lparr> budgetMatch = calculateBudgetMatch tool (userProfile context),
       experienceMatch = calculateExperienceMatch tool (userProfile context),
       goalAlignment = calculateGoalAlignment tool context,
       industryRelevance = calculateIndustryRelevance tool (userProfile context),
       popularityScore = calculatePopularityScore tool,
       roiPotential = calculateROIPotential tool (userProfile context),
       learningCurve = calculateLearningCurveScore tool (userProfile context),
       integrationScore = calculateIntegrationScore tool (userProfile context) \<rparr>"

definition calculateToolScore :: "Tool list \<Rightarrow> Tool \<Rightarrow> RecommendationContext \<Rightarrow> RecommendationScore" where
  "calculateToolScore tools tool context =
     (let fs = calculateFactors tool context;
          score = foldl (\<lambda>total (v, w). total + v * w) 0 (weightedEntries fs)
      in \<lparr> rs_tool = tool,
           rs_score = score,
           rs_factors = fs,
           rs_reasoning = generateReasoning fs tool context,
           rs_alternatives = findAlternatives tools tool context,
           rs_estimatedROI = estimateROI tool (userProfile context),
           rs_timeToValue = estimateTimeToValue tool (userProfile context),
           rs_confidence = calculateConfidence fs context \<rparr>)"

definition calculateLearningCurve :: "real \<Rightarrow> LearningCurve" where
  "calculateLearningCurve s = (if s > 0.7 then Easy else if s > 0.4 then MediumCurve else Hard)"

definition generateRecommendationContext :: "RecommendationScore \<Rightarrow> RecommendationContext \<Rightarrow> RecommendedFor list" where
  "generateRecommendationContext scoredTool context =
     (if budgetMatch (rs_factors scoredTool) > 0.8 then [BudgetFriendly] else []) @
     (if experienceMatch (rs_factors scoredTool) > 0.8
        then [PerfectForUsers (experience (userProfile context))] else []) @
     (if goalAlignment (rs_factors scoredTool) > 0.7 then [GoalAligned] else [])"

text \<open>
  \<open>xs.slice(0, end)\<close> for an integral \<open>end\<close> (a fractional one is truncated towards zero
  first): a negative \<open>end\<close> counts from the end of the array.
\<close>

definition slice0 :: "'a list \<Rightarrow> int \<Rightarrow> 'a list" where
  "slice0 xs e =
     (let n = int (length xs);
          final = (if e < 0 then max (n + e) 0 else min e n)
      in take (nat final) xs)"

text \<open>
  \<open>scoredTools.sort((a, b) => b.score - a.score)\<close>: descending by score. The runtime's
  sort is stable, as is \<^const>\<open>sort_key\<close>, here on the negated score.
\<close>

definition sortByScore :: "RecommendationScore list \<Rightarrow> RecommendationScore list" where
  "sortByScore scoredTools = sort_key (\<lambda>s. - rs_score s) scoredTools"

definition toRecommendation :: "RecommendationContext \<Rightarrow> RecommendationScore \<Rightarrow> ToolRecommendation" where
  "toRecommendation context scoredTool =
     \<lparr> rec_toolId = tool_id (rs_tool scoredTool),
       rec_confidence = rs_confidence scoredTool,
       rec_reasoning = rs_reasoning scoredTool,
       rec_alternatives = map tool_id (rs_alternatives scoredTool),
       rec_estimatedROI = rs_estimatedROI scoredTool,
       rec_timeToValue = rs_timeToValue scoredTool,
       rec_learningCurve = calculateLearningCurve (learningCurve (rs_factors scoredTool)),
       rec_recommendedFor = generateRecommendationContext scoredTool context \<rparr>"

definition generateRecommendations :: "Tool list \<Rightarrow> RecommendationContext \<Rightarrow> int \<Rightarrow> ToolRecommendation list" where
  "generateRecommendations tools context limit =
     (let scoredTools = map (\<lambda>tool. calculateToolScore tools tool context) tools;
          topRecommendations = slice0 (sortByScore scoredTools) limit
      in map (toRecommendation context) topRecommendations)"

section \<open>The ROI calculator\<close>








text \<open>\<open>table[key] || dflt\<close> on a table whose entries are all truthy.\<close>

definition lookupOr :: "(string \<times> 'a) list \<Rightarrow> string \<Rightarrow> 'a \<Rightarrow> 'a" where
  "lookupOr table key dflt = (case map_of table key of Some v \<Rightarrow> v | None \<Rightarrow> dflt)"






























section \<open>The stack builder\<close>

datatype Priority = Essential | Important | NiceToHave

datatype Complexity = SimpleStack | ModerateStack | ComplexStack

record ToolStackItem =
  item_toolId :: string
  item_role :: string
  item_priority :: Priority
  item_integrationNotes :: string

text \<open>A stack's random \<open>id\<close> and its two timestamps are not part of the model.\<close>

record ToolStack =
  st_userId :: string
  st_name :: string
  st_description :: string
  st_tools :: "ToolStackItem list"
  estimatedCost :: real
  st_estimatedROI :: real
  st_complexity :: Complexity
  st_useCase :: string
  st_isPublic :: bool
  st_likes :: nat
  st_shares :: nat

datatype StackReason =
    FitsWithinBudget
  | MatchesExperience Experience
  | AlignsWithPrimaryGoals
  | HighROI

record StackRecommendation =
  sr_stack :: ToolStack
  sr_confidence :: real
  sr_reasoning :: "StackReason list"
  sr_alternatives :: "ToolStack list"
  sr_estimatedROI :: real
  sr_timeToImplement :: real
  sr_learningCurve :: LearningCurve

definition isEssentialForUseCase :: "Tool \<Rightarrow> string \<Rightarrow> bool" where
  "isEssentialForUseCase tool uc =
     (let useCaseLower = toLowerCase uc
      in str_includes (toolText tool) useCaseLower \<or>
         str_includes (toLowerCase (category tool)) useCaseLower \<or>
         tagsSome (\<lambda>tag. str_includes (toLowerCase tag) useCaseLower) tool)"

definition isBalancedForUseCase :: "Tool \<Rightarrow> string \<Rightarrow> bool" where
  "isBalancedForUseCase tool uc =
     (isEssentialForUseCase tool uc \<or>
      (case rating tool of None \<Rightarrow> False | Some r \<Rightarrow> r \<ge> 4.0))"

definition isFeatureRichForUseCase :: "Tool \<Rightarrow> string \<Rightarrow> bool" where
  "isFeatureRichForUseCase tool uc =
     (isBalancedForUseCase tool uc \<or>
      (case rating tool of None \<Rightarrow> False | Some r \<Rightarrow> r \<ge> 3.5))"

definition getToolRole :: "Tool \<Rightarrow> string \<Rightarrow> string" where
  "getToolRole tool uc =
     lookupOr [(''marketing'', ''Marketing Automation''), (''design'', ''Design & Creative''),
               (''development'', ''Development & Coding''), (''analytics'', ''Data & Analytics''),
               (''automation'', ''Workflow Automation''),
               (''communication'', ''Team Communication''),
               (''project management'', ''Project Management''),
               (''finance'', ''Financial Management'')] (toLowerCase uc) (category tool)"

definition generateIntegrationNotes :: "Tool \<Rightarrow> Tool list \<Rightarrow> string" where
  "generateIntegrationNotes tool allTools =
     (let integrations = filter (\<lambda>t. tool_id t \<noteq> tool_id tool) allTools
      in if length integrations = 0 then ''Standalone tool''
         else ''Integrates with: '' @ join '', '' (map name (take 2 integrations)) @
              (if length integrations > 2 then '' and more'' else []))"

definition calculateStackCost :: "Tool list \<Rightarrow> real" where
  "calculateStackCost tools =
     foldl (\<lambda>total tool. total + ToolStackBuilder_extractPrice (pricing tool)) 0 tools"

text \<open>The builder's copies of the two multiplier tables repeat the engine's entries.\<close>

definition Stack_getIndustryROIMultiplier :: "string \<Rightarrow> real" where
  "Stack_getIndustryROIMultiplier ind = lookupOr industryROIMultipliers ind 1.0"

fun Stack_getTeamSizeMultiplier :: "TeamSize \<Rightarrow> real" where
  "Stack_getTeamSizeMultiplier Solo = 0.8"
| "Stack_getTeamSizeMultiplier Small = 1.0"
| "Stack_getTeamSizeMultiplier Medium = 1.2"
| "Stack_getTeamSizeMultiplier Large = 1.4"
| "Stack_getTeamSizeMultiplier Enterprise = 1.6"

definition Stack_calculateStackROI :: "Tool list \<Rightarrow> UserProfile \<Rightarrow> real" where
  "Stack_calculateStackROI tools profile =
     (let baseROI = 150;
          industryMultiplier = Stack_getIndustryROIMultiplier (industry profile);
          teamSizeMultiplier = Stack_getTeamSizeMultiplier (teamSize profile);
          toolCountMultiplier = min (real (length tools) / 3) 1.5
      in Math_round (baseROI * industryMultiplier * teamSizeMultiplier * toolCountMultiplier))"

text \<open>\<open>tools.map((tool, index) => ...)\<close>: each tool with its position.\<close>

definition stackItems :: "(nat \<Rightarrow> Priority) \<Rightarrow> Tool list \<Rightarrow> string \<Rightarrow> ToolStackItem list" where
  "stackItems priorityAt chosen uc =
     map (\<lambda>(index, tool).
            \<lparr> item_toolId = tool_id tool,
              item_role = getToolRole tool uc,
              item_priority = priorityAt index,
              item_integrationNotes = generateIntegrationNotes tool chosen \<rparr>)
         (enumerate 0 chosen)"

definition buildEssentialStack :: "Tool list \<Rightarrow> UserProfile \<Rightarrow> string \<Rightarrow> real \<Rightarrow> ToolStack option" where
  "buildEssentialStack tools profile uc limitCost =
     (let essentialTools = take 3 (filter (\<lambda>tool. isEssentialForUseCase tool uc) tools)
      in if length essentialTools = 0 then None
         else
           let items = stackItems (\<lambda>index. Essential) essentialTools uc;
               cost = calculateStackCost essentialTools
           in if cost > limitCost then None
              else Some \<lparr> st_userId = userId profile,
                          st_name = uc @ '' Essential Stack'',
                          st_description = ''Core tools to get started with '' @ uc,
                          st_tools = items,
                          estimatedCost = cost,
                          st_estimatedROI = Stack_calculateStackROI essentialTools profile,
                          st_complexity = SimpleStack,
                          st_useCase = uc,
                          st_isPublic = False,
                          st_likes = 0,
                          st_shares = 0 \<rparr>)"

definition buildBalancedStack :: "Tool list \<Rightarrow> UserProfile \<Rightarrow> string \<Rightarrow> real \<Rightarrow> ToolStack option" where
  "buildBalancedStack tools profile uc limitCost =
     (let balancedTools = take 5 (filter (\<lambda>tool. isBalancedForUseCase tool uc) tools)
      in if length balancedTools = 0 then None
         else
           let items = stackItems (\<lambda>index. if index < 3 then Essential else Important)
                         balancedTools uc;
               cost = calculateStackCost balancedTools
           in if cost > limitCost then None
              else Some \<lparr> st_userId = userId profile,
                          st_name = uc @ '' Balanced Stack'',
                          st_description =
                            ''Complete solution for '' @ uc @
                            '' with essential and important tools'',
                          st_tools = items,
                          estimatedCost = cost,
                          st_estimatedROI = Stack_calculateStackROI balancedTools profile,
                          st_complexity = ModerateStack,
                          st_useCase = uc,
                          st_isPublic = False,
                          st_likes = 0,
                          st_shares = 0 \<rparr>)"

definition buildFeatureRichStack :: "Tool list \<Rightarrow> UserProfile \<Rightarrow> string \<Rightarrow> real \<Rightarrow> ToolStack option" where
  "buildFeatureRichStack tools profile uc limitCost =
     (let featureRichTools = take 7 (filter (\<lambda>tool. isFeatureRichForUseCase tool uc) tools)
      in if length featureRichTools = 0 then None
         else
           let items = stackItems (\<lambda>index. if index < 3 then Essential
                                            else if index < 5 then Important else NiceToHave)
                         featureRichTools uc;
               cost = calculateStackCost featureRichTools
           in if cost > limitCost then None
              else Some \<lparr> st_userId = userId profile,
                          st_name = uc @ '' Premium Stack'',
                          st_description =
                            ''Comprehensive solution for '' @ uc @ '' with advanced features'',
                          st_tools = items,
                          estimatedCost = cost,
                          st_estimatedROI = Stack_calculateStackROI featureRichTools profile,
                          st_complexity = ComplexStack,
                          st_useCase = uc,
                          st_isPublic = False,
                          st_likes = 0,
                          st_shares = 0 \<rparr>)"

text \<open>\<open>if (stack) stacks.push(stack)\<close>, for the three configurations in order.\<close>

definition buildStackConfigurations :: "Tool list \<Rightarrow> UserProfile \<Rightarrow> string \<Rightarrow> real \<Rightarrow> ToolStack list" where
  "buildStackConfigurations tools profile uc limitCost =
     List.map_filter (\<lambda>x. x)
       [buildEssentialStack tools profile uc limitCost,
        buildBalancedStack tools profile uc limitCost,
        buildFeatureRichStack tools profile uc limitCost]"

definition Stack_calculateGoalAlignment :: "ToolStack \<Rightarrow> UserProfile \<Rightarrow> real" where
  "Stack_calculateGoalAlignment stack profile =
     min (foldl (\<lambda>alignmentScore goal.
                   if str_includes (toLowerCase (st_description stack)) (toLowerCase goal) \<or>
                      str_includes (toLowerCase (st_useCase stack)) (toLowerCase goal)
                   then alignmentScore + 0.3 else alignmentScore)
            0 (primaryGoals profile)) 1.0"

fun complexityMultipliers :: "Complexity \<Rightarrow> real" where
  "complexityMultipliers SimpleStack = 1"
| "complexityMultipliers ModerateStack = 1.5"
| "complexityMultipliers ComplexStack = 2.5"

definition estimateImplementationTime :: "ToolStack \<Rightarrow> real" where
  "estimateImplementationTime stack =
     (let baseTime = 14 in Math_round (baseTime * complexityMultipliers (st_complexity stack)))"

fun Stack_calculateLearningCurve :: "Complexity \<Rightarrow> LearningCurve" where
  "Stack_calculateLearningCurve SimpleStack = Easy"
| "Stack_calculateLearningCurve ModerateStack = MediumCurve"
| "Stack_calculateLearningCurve ComplexStack = Hard"

definition scoreStack :: "ToolStack \<Rightarrow> UserProfile \<Rightarrow> StackRecommendation" where
  "scoreStack stack profile =
     (let budgetFits = (estimatedCost stack \<le> monthly (budget profile) * 0.8);
          levelFits =
            ((experience profile = Expert \<and> st_complexity stack = ComplexStack) \<or>
             (experience profile = Intermediate \<and> st_complexity stack = ModerateStack) \<or>
             (experience profile = Beginner \<and> st_complexity stack = SimpleStack));
          goalsFit = (Stack_calculateGoalAlignment stack profile > 0.7);
          roiFits = (st_estimatedROI stack > 200);
          c0 = 0.7;
          c1 = (if budgetFits then c0 + 0.1 else c0);
          c2 = (if levelFits then c1 + 0.1 else c1);
          c3 = (if goalsFit then c2 + 0.1 else c2);
          c4 = (if roiFits then c3 + 0.1 else c3)
      in \<lparr> sr_stack = stack,
           sr_confidence = min c4 1.0,
           sr_reasoning =
             (if budgetFits then [FitsWithinBudget] else []) @
             (if levelFits then [MatchesExperience (experience profile)] else []) @
             (if goalsFit then [AlignsWithPrimaryGoals] else []) @
             (if roiFits then [HighROI] else []),
           sr_alternatives = [],
           sr_estimatedROI = st_estimatedROI stack,
           sr_timeToImplement = estimateImplementationTime stack,
           sr_learningCurve = Stack_calculateLearningCurve (st_complexity stack) \<rparr>)"

text \<open>
  \<open>generateToolStack\<close>: ten recommendations, each looked up again in the catalog by id
  (\<open>tools.find\<close>, misses dropped), the three configurations, scored, sorted by confidence
  (descending, stable) and cut to three.
\<close>

definition generateToolStack :: "Tool list \<Rightarrow> UserProfile \<Rightarrow> string \<Rightarrow> real \<Rightarrow> StackRecommendation list" where
  "generateToolStack tools profile uc limitCost =
     (let context = \<lparr> userProfile = profile, currentSearch = Some uc, recentInteractions = [] \<rparr>;
          recommendations = generateRecommendations tools context 10;
          recommendedTools =
            List.map_filter (\<lambda>r. find (\<lambda>t. tool_id t = rec_toolId r) tools) recommendations;
          stacks = buildStackConfigurations recommendedTools profile uc limitCost;
          scoredStacks =
            sort_key (\<lambda>s. - sr_confidence s) (map (\<lambda>stack. scoreStack stack profile) stacks)
      in slice0 scoredStacks 3)"

section \<open>The chat dispatcher\<close>

text \<open>
  The canned answers are long literal texts with pictographs; the model names each text
  by a constructor and keeps the values a template interpolates.
\<close>

datatype ResponseText =
    GreetingText
  | HelpText
  | ThanksText
  | GoodbyeText
  | CategoryText string
  | SearchFoundText nat string
  | NoResultsText string
  | ErrorText

datatype ContentItem =
    TextItem ResponseText
  | RecommendedToolsCard nat string "Tool list"
  | SearchResultsCard string "Tool list"

datatype ChatContext =
    ContextType string
  | ContextTools string "string list"
  | ContextEmpty

record AIResponse =
  content :: "ContentItem list"
  chat_context :: ChatContext

definition greetings :: "string list" where
  "greetings =
     [''hi'', ''hello'', ''hey'', ''good morning'', ''good afternoon'', ''good evening'',
      ''howdy'', ''sup'', ''what'' @ [CHR 0x27] @ ''s up'']"

definition commonWords :: "string list" where
  "commonWords =
     [''the'', ''and'', ''or'', ''but'', ''in'', ''on'', ''at'', ''to'', ''for'', ''of'', ''with'',
      ''by'', ''is'', ''are'', ''was'', ''were'', ''be'', ''been'', ''have'', ''has'', ''had'',
      ''do'', ''does'', ''did'', ''will'', ''would'', ''could'', ''should'', ''may'', ''might'',
      ''can'', ''this'', ''that'', ''these'', ''those'', ''a'', ''an'']"

text \<open>
  A search pattern: the alternatives of its case-insensitive regular expression (all
  literal words), its category, and the keywords its catalog filter looks for in a tool's
  category, subcategory and tags.
\<close>

record SearchPattern =
  pat_alternatives :: "string list"
  pat_category :: string
  pat_categoryKeys :: "string list"
  pat_subcategoryKeys :: "string list"
  pat_tagKeys :: "string list"

definition searchPatterns :: "SearchPattern list" where
  "searchPatterns =
     [\<lparr> pat_alternatives = [''video'', ''editing'', ''film'', ''movie'', ''youtube'', ''vlog''],
        pat_category = ''video'', pat_categoryKeys = [''video''],
        pat_subcategoryKeys = [''video''], pat_tagKeys = [''video''] \<rparr>,
      \<lparr> pat_alternatives = [''writing'', ''content'', ''blog'', ''article'', ''copy'', ''text''],
        pat_category = ''writing'', pat_categoryKeys = [''writing''],
        pat_subcategoryKeys = [''writing''], pat_tagKeys = [''writing''] \<rparr>,
      \<lparr> pat_alternatives = [''coding'', ''programming'', ''developer'', ''code'', ''software''],
        pat_category = ''coding'', pat_categoryKeys = [''coding''],
        pat_subcategoryKeys = [''coding''], pat_tagKeys = [''coding''] \<rparr>,
      \<lparr> pat_alternatives = [''data'', ''analysis'', ''analytics'', ''insights'', ''reporting''],
        pat_category = ''data'', pat_categoryKeys = [''data''],
        pat_subcategoryKeys = [''data''], pat_tagKeys = [''data''] \<rparr>,
      \<lparr> pat_alternatives = [''design'', ''graphic'', ''art'', ''creative'', ''visual''],
        pat_category = ''design'', pat_categoryKeys = [''design''],
        pat_subcategoryKeys = [''design''], pat_tagKeys = [''design''] \<rparr>,
      \<lparr> pat_alternatives = [''marketing'', ''social'', ''ads'', ''campaign'', ''promotion''],
        pat_category = ''marketing'', pat_categoryKeys = [''marketing''],
        pat_subcategoryKeys = [''marketing''], pat_tagKeys = [''marketing''] \<rparr>,
      \<lparr> pat_alternatives =
          [''ai agent'', ''automation'', ''workflow'', ''bot'', ''process automation''],
        pat_category = ''automation'', pat_categoryKeys = [''automation'', ''agent''],
        pat_subcategoryKeys = [''automation''], pat_tagKeys = [''automation'', ''workflow''] \<rparr>,
      \<lparr> pat_alternatives =
          [''personal finance'', ''budgeting'', ''finance'', ''money'', ''budget'', ''financial''],
        pat_category = ''finance'', pat_categoryKeys = [''finance'', ''budgeting''],
        pat_subcategoryKeys = [''finance'', ''financial planning''],
        pat_tagKeys = [''finance'', ''budget''] \<rparr>,
      \<lparr> pat_alternatives =
          [''health'', ''medical'', ''wellness'', ''fitness'', ''symptom'', ''diagnosis''],
        pat_category = ''health'', pat_categoryKeys = [''health''],
        pat_subcategoryKeys = [''health''], pat_tagKeys = [''health'', ''medical''] \<rparr>,
      \<lparr> pat_alternatives =
          [''education'', ''learning'', ''teaching'', ''student'', ''course'', ''training''],
        pat_category = ''education'', pat_categoryKeys = [''education''],
        pat_subcategoryKeys = [''education''], pat_tagKeys = [''education'', ''learning''] \<rparr>,
      \<lparr> pat_alternatives = [''gaming'', ''game'', ''entertainment'', ''fun'', ''play''],
        pat_category = ''gaming'', pat_categoryKeys = [''gaming'', ''entertainment''],
        pat_subcategoryKeys = [''gaming''], pat_tagKeys = [''game'', ''entertainment''] \<rparr>,
      \<lparr> pat_alternatives = [''legal'', ''law'', ''compliance'', ''contract'', ''document''],
        pat_category = ''legal'', pat_categoryKeys = [''legal''],
        pat_subcategoryKeys = [''legal''], pat_tagKeys = [''legal'', ''law''] \<rparr>]"

text \<open>\<open>pattern.test(message)\<close> for an alternation of literals under the \<open>i\<close> flag.\<close>

definition patternTest :: "SearchPattern \<Rightarrow> string \<Rightarrow> bool" where
  "patternTest pat message =
     list_ex (\<lambda>alt. str_includes (toLowerCase message) alt) (pat_alternatives pat)"

definition patternTools :: "SearchPattern \<Rightarrow> Tool list \<Rightarrow> Tool list" where
  "patternTools pat tools =
     take 5 (filter (\<lambda>tool.
        list_ex (\<lambda>k. str_includes (toLowerCase (category tool)) k) (pat_categoryKeys pat) \<or>
        (case subcategory tool of
           None \<Rightarrow> False
         | Some sub \<Rightarrow> list_ex (\<lambda>k. str_includes (toLowerCase sub) k) (pat_subcategoryKeys pat)) \<or>
        tagsSome (\<lambda>tag. list_ex (\<lambda>k. str_includes (toLowerCase tag) k) (pat_tagKeys pat)) tool)
       tools)"

definition greetingResponse :: AIResponse where
  "greetingResponse =
     \<lparr> content = [TextItem GreetingText], chat_context = ContextType ''greeting'' \<rparr>"

definition errorResponse :: AIResponse where
  "errorResponse = \<lparr> content = [TextItem ErrorText], chat_context = ContextEmpty \<rparr>"

definition noResultsResponse :: "string \<Rightarrow> AIResponse" where
  "noResultsResponse message =
     \<lparr> content = [TextItem (NoResultsText message)], chat_context = ContextEmpty \<rparr>"

definition helpResponse :: AIResponse where
  "helpResponse = \<lparr> content = [TextItem HelpText], chat_context = ContextType ''help'' \<rparr>"

definition thanksResponse :: AIResponse where
  "thanksResponse = \<lparr> content = [TextItem ThanksText], chat_context = ContextType ''thanks'' \<rparr>"

definition goodbyeResponse :: AIResponse where
  "goodbyeResponse =
     \<lparr> content = [TextItem GoodbyeText], chat_context = ContextType ''goodbye'' \<rparr>"

text \<open>The general search: only for a query of three or more characters that is not a common word.\<close>

definition generalSearch :: "string \<Rightarrow> string \<Rightarrow> Tool list \<Rightarrow> AIResponse" where
  "generalSearch message messageLower tools =
     (if length messageLower \<ge> 3 \<and> messageLower \<notin> set commonWords then
        let searchResults =
              take 3 (filter (\<lambda>tool.
                 str_includes (toLowerCase (name tool)) messageLower \<or>
                 str_includes (toLowerCase (description tool)) messageLower \<or>
                 tagsSome (\<lambda>tag. str_includes (toLowerCase tag) messageLower) tool \<or>
                 str_includes (toLowerCase (category tool)) messageLower) tools)
        in if length searchResults > 0 then
             \<lparr> content = [TextItem (SearchFoundText (length searchResults) message),
                          SearchResultsCard message searchResults],
               chat_context = ContextTools ''search'' (map name searchResults) \<rparr>
           else noResultsResponse message
      else noResultsResponse message)"

text \<open>
  The part of \<open>processUserMessage\<close> after the catalog has been imported: the first
  pattern that matches the raw message decides; when its filter finds no tool, the
  general search runs.
\<close>

definition searchCatalog :: "string \<Rightarrow> string \<Rightarrow> Tool list \<Rightarrow> AIResponse" where
  "searchCatalog message messageLower tools =
     (case find (\<lambda>pat. patternTest pat message) searchPatterns of
        Some pat \<Rightarrow>
          let matchedTools = patternTools pat tools
          in if length matchedTools > 0 then
               \<lparr> content = [TextItem (CategoryText (pat_category pat)),
                            RecommendedToolsCard (length matchedTools) (pat_category pat)
                              matchedTools],
                 chat_context = ContextTools (pat_category pat) (map name matchedTools) \<rparr>
             else generalSearch message messageLower tools
      | None \<Rightarrow> generalSearch message messageLower tools)"

text \<open>
  \<open>processUserMessage\<close>. The catalog argument is the outcome of the dynamic import, which
  happens only after the four conversational rules: \<open>None\<close> is a rejected import, which
  the surrounding \<open>try\<close>/\<open>catch\<close> turns into the apology.
\<close>

definition processUserMessage :: "string \<Rightarrow> Tool list option \<Rightarrow> AIResponse" where
  "processUserMessage message catalog =
     (let messageLower = trim (toLowerCase message)
      in if list_ex (\<lambda>greeting. str_includes messageLower greeting) greetings
           then greetingResponse
         else if str_includes messageLower ''help'' \<or>
                 str_includes messageLower ''what can you do'' \<or>
                 str_includes messageLower ''how do you work''
           then helpResponse
         else if str_includes messageLower ''thank'' \<or> str_includes messageLower ''thanks''
           then thanksResponse
         else if str_includes messageLower ''bye'' \<or> str_includes messageLower ''goodbye'' \<or>
                 str_includes messageLower ''see you''
           then goodbyeResponse
         else case catalog of
                None \<Rightarrow> errorResponse
              | Some tools \<Rightarrow> searchCatalog message messageLower tools)"

section \<open>Stating the claims\<close>

text \<open>
  The aggregate score of the tool a recommendation names: the catalog entry with that id
  (the lookup \<open>tools.find(t => t.id === rec.toolId)\<close> the stack builder makes), scored as
  \<open>generateRecommendations\<close> scores it.
\<close>

definition scoreById :: "Tool list \<Rightarrow> RecommendationContext \<Rightarrow> string \<Rightarrow> real" where
  "scoreById tools context i =
     (case find (\<lambda>t. tool_id t = i) tools of
        Some t \<Rightarrow> rs_score (calculateToolScore tools t context)
      | None \<Rightarrow> 0)"

text \<open>Concrete inputs on which the theorems below are instantiated.\<close>

definition marketingTool :: Tool where
  "marketingTool =
     \<lparr> tool_id = ''t1'', name = ''Acme'', category = ''Marketing'', subcategory = None,
       description = ''An advanced marketing tool'', pricing = ''$49/month'',
       tags = Some [''api'', ''marketing''], rating = Some 4.6 \<rparr>"

definition codingTool :: Tool where
  "codingTool =
     \<lparr> tool_id = ''t2'', name = ''Code'', category = ''Coding'', subcategory = None,
       description = ''advanced complex enterprise software tech development coding programming'',
       pricing = ''Free'', tags = Some [''coding api''], rating = Some 5 \<rparr>"

definition enterpriseProfile :: UserProfile where
  "enterpriseProfile =
     \<lparr> userId = ''u1'', industry = ''Technology'', experience = Intermediate,
       teamSize = Enterprise,
       budget = \<lparr> monthly = 500, annual = 6000, currency = ''$'' \<rparr>,
       primaryGoals = [''coding''],
       toolPreferences = \<lparr> easeOfUse = 5, priceSensitivity = 5, featureRichness = 5,
                           integrationNeeds = 8 \<rparr> \<rparr>"

definition enterpriseContext :: RecommendationContext where
  "enterpriseContext =
     \<lparr> userProfile = enterpriseProfile, currentSearch = None, recentInteractions = [] \<rparr>"

section \<open>Shared lemmas\<close>

lemma matchPrice_no_digit: "\<not> list_ex isDigit s \<Longrightarrow> matchPrice s = None"
  by (induction s) auto


lemma length_slice0:
  "int (length (slice0 xs e)) =
     (if e < 0 then max (int (length xs) + e) 0 else min e (int (length xs)))"
  by (simp add: slice0_def Let_def)

lemma set_slice0: "set (slice0 xs e) \<subseteq> set xs"
  by (simp add: slice0_def Let_def set_take_subset)

lemma distinct_map_sort_key: "distinct (map h (sort_key f xs)) = distinct (map h xs)"
  by (simp add: distinct_map)

lemma set_map_filter_id: "y \<in> set (List.map_filter (\<lambda>x. x) xs) \<longleftrightarrow> Some y \<in> set xs"
  by (induction xs) (auto simp: List.map_filter_simps split: option.splits)

lemma find_by_id:
  "distinct (map tool_id tools) \<Longrightarrow> t \<in> set tools \<Longrightarrow>
   find (\<lambda>x. tool_id x = tool_id t) tools = Some t"
proof (induction tools)
  case Nil
  then show ?case by simp
next
  case (Cons a tools)
  then show ?case by (cases "a = t") auto
qed

subsection \<open>Scores\<close>

lemma rs_tool_score [simp]: "rs_tool (calculateToolScore tools tool context) = tool"
  by (simp add: calculateToolScore_def Let_def)

lemma rs_factors_score [simp]:
  "rs_factors (calculateToolScore tools tool context) = calculateFactors tool context"
  by (simp add: calculateToolScore_def Let_def)

lemma rs_score_eq:
  "rs_score (calculateToolScore tools tool context) =
     budgetMatch (calculateFactors tool context) * 0.15 +
     experienceMatch (calculateFactors tool context) * 0.12 +
     goalAlignment (calculateFactors tool context) * 0.20 +
     industryRelevance (calculateFactors tool context) * 0.10 +
     popularityScore (calculateFactors tool context) * 0.08 +
     roiPotential (calculateFactors tool context) * 0.15 +
     learningCurve (calculateFactors tool context) * 0.10 +
     integrationScore (calculateFactors tool context) * 0.10"
  by (simp add: calculateToolScore_def Let_def weightedEntries_def)


lemma estimateToolComplexity_range:
  "0 \<le> estimateToolComplexity tool \<and> estimateToolComplexity tool \<le> 1"
proof -
  have "length (filter (\<lambda>b. b) [a, b, c, d, e]) \<le> 5" for a b c d e :: bool
    using length_filter_le [of "\<lambda>b. b" "[a, b, c, d, e]"] by simp
  then show ?thesis
    by (simp add: estimateToolComplexity_def Let_def)
qed

lemma calculateBudgetMatch_range:
  "0 \<le> calculateBudgetMatch tool profile \<and> calculateBudgetMatch tool profile \<le> 1"
  by (simp add: calculateBudgetMatch_def Let_def)

lemma calculateExperienceMatch_range:
  "0 \<le> calculateExperienceMatch tool profile \<and> calculateExperienceMatch tool profile \<le> 1"
  using estimateToolComplexity_range [of tool]
  by (cases "experience profile") (auto simp: calculateExperienceMatch_def Let_def abs_if)

lemma goalStep_mono: "a \<le> goalStep tool a goal"
  by (simp add: goalStep_def Let_def)

lemma foldl_goalStep_nonneg: "0 \<le> a \<Longrightarrow> 0 \<le> foldl (goalStep tool) a goals"
proof (induction goals arbitrary: a)
  case Nil
  then show ?case by simp
next
  case (Cons g goals)
  from Cons.prems goalStep_mono [of a tool g] have "0 \<le> goalStep tool a g" by linarith
  then show ?case by (simp add: Cons.IH)
qed

lemma calculateGoalAlignment_range:
  "0 \<le> calculateGoalAlignment tool context \<and> calculateGoalAlignment tool context \<le> 1"
  by (simp add: calculateGoalAlignment_def foldl_goalStep_nonneg)

lemma calculateIndustryRelevance_range:
  "0 \<le> calculateIndustryRelevance tool profile \<and> calculateIndustryRelevance tool profile \<le> 1"
  by (simp add: calculateIndustryRelevance_def Let_def)

lemma getIndustryROIMultiplier_range:
  "9 / 10 \<le> getIndustryROIMultiplier ind \<and> getIndustryROIMultiplier ind \<le> 3 / 2"
  by (simp add: getIndustryROIMultiplier_def industryROIMultipliers_def)

lemma calculateROIPotential_range:
  "9 / 25 \<le> calculateROIPotential tool profile \<and> calculateROIPotential tool profile \<le> 6 / 5"
  using getIndustryROIMultiplier_range [of "industry profile"]
  by (cases "teamSize profile") (auto simp: calculateROIPotential_def Let_def)

lemma calculateLearningCurveScore_range:
  "0 \<le> calculateLearningCurveScore tool profile \<and> calculateLearningCurveScore tool profile \<le> 1"
  by (simp add: calculateLearningCurveScore_def Let_def)

lemma calculateIntegrationScore_range:
  "0 \<le> calculateIntegrationScore tool profile \<and> calculateIntegrationScore tool profile \<le> 1"
  by (simp add: calculateIntegrationScore_def Let_def)

text \<open>
  What does hold of the scoring: seven sub-factors stay in \<open>[0, 1]\<close> (the popularity
  score for a rating in \<open>[0, 5]\<close>), the ROI potential ranges over \<open>[0.36, 1.2]\<close>, and the
  aggregate over \<open>[0, 1.03]\<close>.
\<close>

lemma factor_ranges:
  assumes "case rating tool of None \<Rightarrow> True | Some r \<Rightarrow> 0 \<le> r \<and> r \<le> 5"
  shows "0 \<le> budgetMatch (calculateFactors tool context) \<and>
         budgetMatch (calculateFactors tool context) \<le> 1 \<and>
         0 \<le> experienceMatch (calculateFactors tool context) \<and>
         experienceMatch (calculateFactors tool context) \<le> 1 \<and>
         0 \<le> goalAlignment (calculateFactors tool context) \<and>
         goalAlignment (calculateFactors tool context) \<le> 1 \<and>
         0 \<le> industryRelevance (calculateFactors tool context) \<and>
         industryRelevance (calculateFactors tool context) \<le> 1 \<and>
         0 \<le> popularityScore (calculateFactors tool context) \<and>
         popularityScore (calculateFactors tool context) \<le> 1 \<and>
         9 / 25 \<le> roiPotential (calculateFactors tool context) \<and>
         roiPotential (calculateFactors tool context) \<le> 6 / 5 \<and>
         0 \<le> learningCurve (calculateFactors tool context) \<and>
         learningCurve (calculateFactors tool context) \<le> 1 \<and>
         0 \<le> integrationScore (calculateFactors tool context) \<and>
         integrationScore (calculateFactors tool context) \<le> 1"
proof -
  have pop: "0 \<le> calculatePopularityScore tool \<and> calculatePopularityScore tool \<le> 1"
    using assms by (simp add: calculatePopularityScore_def split: option.splits)
  show ?thesis
    using pop calculateBudgetMatch_range [of tool "userProfile context"]
      calculateExperienceMatch_range [of tool "userProfile context"]
      calculateGoalAlignment_range [of tool "context"]
      calculateIndustryRelevance_range [of tool "userProfile context"]
      calculateROIPotential_range [of tool "userProfile context"]
      calculateLearningCurveScore_range [of tool "userProfile context"]
      calculateIntegrationScore_range [of tool "userProfile context"]
    by (simp add: calculateFactors_def)
qed

lemma score_range:
  assumes "case rating tool of None \<Rightarrow> True | Some r \<Rightarrow> 0 \<le> r \<and> r \<le> 5"
  shows "0 \<le> rs_score (calculateToolScore tools tool context) \<and>
         rs_score (calculateToolScore tools tool context) \<le> 103 / 100"
  using factor_ranges [OF assms, of "context"] unfolding rs_score_eq
  by (simp; linarith)

subsection \<open>Recommendations\<close>

lemma rec_toolId_toRecommendation [simp]:
  "rec_toolId (toRecommendation context s) = tool_id (rs_tool s)"
  by (simp add: toRecommendation_def)

lemma length_generateRecommendations:
  "int (length (generateRecommendations tools context limit)) =
     (if limit < 0 then max (int (length tools) + limit) 0 else min limit (int (length tools)))"
  by (simp add: generateRecommendations_def Let_def length_slice0 sortByScore_def)

lemma topRecommendations_ids:
  "map rec_toolId (generateRecommendations tools context limit) =
     map (tool_id \<circ> rs_tool)
       (slice0 (sortByScore (map (\<lambda>tool. calculateToolScore tools tool context) tools)) limit)"
  by (simp add: generateRecommendations_def Let_def comp_def)

lemma sorted_desc_top:
  "sorted_wrt (\<lambda>a b. rs_score a \<ge> rs_score b) (slice0 (sortByScore xs) e)"
proof -
  have "sorted (map (\<lambda>s. - rs_score s) (sortByScore xs))"
    by (simp add: sortByScore_def)
  then have "sorted_wrt (\<lambda>a b. rs_score a \<ge> rs_score b) (sortByScore xs)"
    by (simp add: sorted_wrt_map)
  then show ?thesis
    by (simp add: slice0_def Let_def sorted_wrt_take)
qed

lemma distinct_ids_top:
  assumes "distinct (map tool_id tools)"
  shows "distinct (map (tool_id \<circ> rs_tool)
           (slice0 (sortByScore (map (\<lambda>tool. calculateToolScore tools tool context) tools)) e))"
proof -
  let ?g = "\<lambda>tool. calculateToolScore tools tool context"
  have "map (tool_id \<circ> rs_tool) (map ?g tools) = map tool_id tools"
    by simp
  with assms have d: "distinct (map (tool_id \<circ> rs_tool) (map ?g tools))"
    by (simp only:)
  then have "distinct (map (tool_id \<circ> rs_tool) (sortByScore (map ?g tools)))"
    by (simp only: sortByScore_def distinct_map_sort_key)
  then have "distinct (take n (map (tool_id \<circ> rs_tool) (sortByScore (map ?g tools))))" for n
    by (rule distinct_take)
  then show ?thesis
    by (simp only: slice0_def Let_def take_map)
qed

subsection \<open>Stacks\<close>

lemma buildEssentialStack_cost:
  "buildEssentialStack tools profile uc b = Some st \<Longrightarrow> estimatedCost st \<le> b"
  by (auto simp: buildEssentialStack_def Let_def split: if_splits)

lemma buildBalancedStack_cost:
  "buildBalancedStack tools profile uc b = Some st \<Longrightarrow> estimatedCost st \<le> b"
  by (auto simp: buildBalancedStack_def Let_def split: if_splits)

lemma buildFeatureRichStack_cost:
  "buildFeatureRichStack tools profile uc b = Some st \<Longrightarrow> estimatedCost st \<le> b"
  by (auto simp: buildFeatureRichStack_def Let_def split: if_splits)

lemma buildStackConfigurations_cost:
  assumes "st \<in> set (buildStackConfigurations tools profile uc b)"
  shows "estimatedCost st \<le> b"
proof -
  from assms have "Some st \<in> set [buildEssentialStack tools profile uc b,
      buildBalancedStack tools profile uc b, buildFeatureRichStack tools profile uc b]"
    by (simp only: buildStackConfigurations_def set_map_filter_id)
  then consider
      "buildEssentialStack tools profile uc b = Some st"
    | "buildBalancedStack tools profile uc b = Some st"
    | "buildFeatureRichStack tools profile uc b = Some st"
    by auto
  then show ?thesis
    by cases (auto dest: buildEssentialStack_cost buildBalancedStack_cost buildFeatureRichStack_cost)
qed

lemma sr_stack_scoreStack [simp]: "sr_stack (scoreStack st profile) = st"
  by (simp add: scoreStack_def Let_def)

subsection \<open>The example inputs, evaluated\<close>

lemma score_marketingTool:
  "rs_score (calculateToolScore [marketingTool, codingTool] marketingTool enterpriseContext)
     = 391 / 625"
  by code_simp

lemma score_codingTool:
  "rs_score (calculateToolScore [marketingTool, codingTool] codingTool enterpriseContext)
     = 103 / 100"
  by code_simp

lemma top_recommendation:
  "map rec_toolId (generateRecommendations [marketingTool, codingTool] enterpriseContext 1)
     = [tool_id codingTool]"
  by (simp add: topRecommendations_ids sortByScore_def slice0_def score_marketingTool
      score_codingTool)

lemma generateRecommendations_single:
  "generateRecommendations [t] ctx 10 = [toRecommendation ctx (calculateToolScore [t] t ctx)]"
  by (simp add: generateRecommendations_def sortByScore_def slice0_def Let_def)

lemma generateToolStack_single:
  "generateToolStack [t] profile uc b =
     slice0 (sort_key (\<lambda>s. - sr_confidence s)
       (map (\<lambda>stack. scoreStack stack profile) (buildStackConfigurations [t] profile uc b))) 3"
  by (simp add: generateToolStack_def Let_def generateRecommendations_single
      List.map_filter_simps)

lemma stacks_within_100:
  "map estimatedCost (buildStackConfigurations [marketingTool] enterpriseProfile ''marketing'' 100)
     = [49, 49, 49]"
  by code_simp

lemma stacks_within_10:
  "buildStackConfigurations [marketingTool] enterpriseProfile ''marketing'' 10 = []"
  by code_simp


section \<open>The claims\<close>

text \<open>
  C1. Claim: each of the eight sub-factors of \<open>calculateToolScore\<close> lies in \<open>[0, 1]\<close> (for a
  rating in \<open>[0, 5]\<close>), and so does the weighted aggregate. The code does not keep the ROI
  potential there: \<open>0.5 * industryMultiplier * teamSizeMultiplier\<close> is returned as it is.
  For a tool rated 5, scored for a Technology profile with an enterprise team, the ROI
  potential is \<open>0.5 * 1.5 * 1.6 = 1.2\<close> and the aggregate score is \<open>1.03\<close>.
\<close>

theorem C1_roiPotential_exceeds_one:
  "rating codingTool = Some 5 \<and>
   roiPotential (rs_factors (calculateToolScore [marketingTool, codingTool] codingTool
     enterpriseContext)) = 6 / 5 \<and>
   rs_score (calculateToolScore [marketingTool, codingTool] codingTool enterpriseContext)
     = 103 / 100"
  by code_simp

text \<open>
  C2 (amended). For every context, every limit and every catalog with pairwise distinct
  ids, the list \<open>generateRecommendations\<close> returns is sorted non-increasing by the
  aggregate score of the tools its entries name, names only catalog tools, and names no
  tool twice; for a limit that is not negative its length is at most the limit.
\<close>

theorem C2_generateRecommendations:
  assumes "distinct (map tool_id tools)"
  shows "sorted_wrt (\<lambda>a b. scoreById tools context (rec_toolId a) \<ge>
                            scoreById tools context (rec_toolId b))
           (generateRecommendations tools context limit) \<and>
         distinct (map rec_toolId (generateRecommendations tools context limit)) \<and>
         set (map rec_toolId (generateRecommendations tools context limit))
           \<subseteq> set (map tool_id tools) \<and>
         (0 \<le> limit \<longrightarrow> int (length (generateRecommendations tools context limit)) \<le> limit)"
proof -
  let ?g = "\<lambda>tool. calculateToolScore tools tool context"
  let ?top = "slice0 (sortByScore (map ?g tools)) limit"
  have top_sub: "set ?top \<subseteq> ?g ` set tools"
    using set_slice0 [of "sortByScore (map ?g tools)" limit] by (simp add: sortByScore_def)
  have score_eq: "scoreById tools context (tool_id (rs_tool s)) = rs_score s"
    if "s \<in> set ?top" for s
  proof -
    from that top_sub obtain t where t: "t \<in> set tools" "s = ?g t" by auto
    then show ?thesis
      using find_by_id [OF assms t(1)] by (simp add: scoreById_def)
  qed
  have "sorted_wrt (\<lambda>a b. rs_score a \<ge> rs_score b) ?top"
    by (rule sorted_desc_top)
  then have "sorted_wrt (\<lambda>a b. scoreById tools context (tool_id (rs_tool a)) \<ge>
                               scoreById tools context (tool_id (rs_tool b))) ?top"
    by (rule sorted_wrt_mono_rel [rotated]) (simp add: score_eq)
  then have s: "sorted_wrt (\<lambda>a b. scoreById tools context (rec_toolId a) \<ge>
                                  scoreById tools context (rec_toolId b))
                  (generateRecommendations tools context limit)"
    by (simp add: generateRecommendations_def Let_def sorted_wrt_map)
  have d: "distinct (map rec_toolId (generateRecommendations tools context limit))"
    unfolding topRecommendations_ids by (rule distinct_ids_top [OF assms])
  have m: "set (map rec_toolId (generateRecommendations tools context limit))
             \<subseteq> set (map tool_id tools)"
    unfolding topRecommendations_ids using top_sub by auto
  have l: "0 \<le> limit \<longrightarrow> int (length (generateRecommendations tools context limit)) \<le> limit"
    by (simp add: length_generateRecommendations)
  from s d m l show ?thesis by blast
qed

theorem C2_generateRecommendations_witness:
  "distinct (map tool_id [marketingTool, codingTool]) \<and>
   map rec_toolId (generateRecommendations [marketingTool, codingTool] enterpriseContext 1)
     = [''t2''] \<and>
   scoreById [marketingTool, codingTool] enterpriseContext ''t2'' = 103 / 100 \<and>
   scoreById [marketingTool, codingTool] enterpriseContext ''t1'' = 391 / 625 \<and>
   sorted_wrt (\<lambda>a b. scoreById [marketingTool, codingTool] enterpriseContext (rec_toolId a) \<ge>
                      scoreById [marketingTool, codingTool] enterpriseContext (rec_toolId b))
     (generateRecommendations [marketingTool, codingTool] enterpriseContext 1) \<and>
   distinct (map rec_toolId
     (generateRecommendations [marketingTool, codingTool] enterpriseContext 1)) \<and>
   int (length (generateRecommendations [marketingTool, codingTool] enterpriseContext 1)) \<le> 1"
proof -
  have h: "distinct (map tool_id [marketingTool, codingTool])"
    by (simp add: marketingTool_def codingTool_def)
  have ids: "tool_id marketingTool = ''t1''" "tool_id codingTool = ''t2''"
    by (simp_all add: marketingTool_def codingTool_def)
  have top: "map rec_toolId
      (generateRecommendations [marketingTool, codingTool] enterpriseContext 1) = [''t2'']"
    using top_recommendation by (simp only: ids)
  have s2: "scoreById [marketingTool, codingTool] enterpriseContext ''t2'' = 103 / 100"
    using score_codingTool by (simp add: scoreById_def ids)
  have s1: "scoreById [marketingTool, codingTool] enterpriseContext ''t1'' = 391 / 625"
    using score_marketingTool by (simp add: scoreById_def ids)
  from C2_generateRecommendations [OF h, of enterpriseContext 1] h top s1 s2 show ?thesis
    by simp
qed

text \<open>
  The claim as stated, for every limit, fails at a negative one: \<open>slice(0, -1)\<close> drops the
  last entry, so a catalog of two tools yields one recommendation, which is more than -1.
\<close>

theorem C2_negative_limit_counterexample:
  "distinct (map tool_id [marketingTool, codingTool]) \<and>
   length (generateRecommendations [marketingTool, codingTool] enterpriseContext (- 1)) = 1 \<and>
   \<not> int (length (generateRecommendations [marketingTool, codingTool] enterpriseContext (- 1)))
       \<le> - 1"
proof -
  have "int (length (generateRecommendations [marketingTool, codingTool] enterpriseContext (- 1)))
          = 1"
    by (simp add: length_generateRecommendations)
  then show ?thesis
    by (simp add: marketingTool_def codingTool_def)
qed

text \<open>
  C3. For every profile, use case and budget, every stack in a recommendation returned by
  \<open>generateToolStack\<close> (the recommended stack and each of its alternatives) has an
  estimated cost that is at most the budget.
\<close>

theorem C3_generateToolStack_within_budget:
  "list_all (\<lambda>r. estimatedCost (sr_stack r) \<le> b \<and>
                 list_all (\<lambda>a. estimatedCost a \<le> b) (sr_alternatives r))
     (generateToolStack tools profile uc b)"
proof -
  have "estimatedCost (sr_stack r) \<le> b \<and> sr_alternatives r = []"
    if "r \<in> set (generateToolStack tools profile uc b)" for r
  proof -
    from that set_slice0 obtain st recommended
      where "r = scoreStack st profile"
        and "st \<in> set (buildStackConfigurations recommended profile uc b)"
      by (fastforce simp: generateToolStack_def Let_def)
    then show ?thesis
      by (simp add: buildStackConfigurations_cost scoreStack_def Let_def)
  qed
  then show ?thesis
    by (simp add: list_all_iff)
qed

theorem C3_generateToolStack_within_budget_witness:
  "length (generateToolStack [marketingTool] enterpriseProfile ''marketing'' 100) = 3 \<and>
   list_all (\<lambda>r. estimatedCost (sr_stack r) \<le> 100 \<and>
                 list_all (\<lambda>a. estimatedCost a \<le> 100) (sr_alternatives r))
     (generateToolStack [marketingTool] enterpriseProfile ''marketing'' 100) \<and>
   generateToolStack [marketingTool] enterpriseProfile ''marketing'' 10 = []"
proof -
  have "length (buildStackConfigurations [marketingTool] enterpriseProfile ''marketing'' 100)
          = length [49::real, 49, 49]"
    using stacks_within_100 by (metis length_map)
  then have l: "length (generateToolStack [marketingTool] enterpriseProfile ''marketing'' 100) = 3"
    by (simp add: generateToolStack_single slice0_def)
  have e: "generateToolStack [marketingTool] enterpriseProfile ''marketing'' 10 = []"
    by (simp add: generateToolStack_single stacks_within_10 slice0_def)
  from C3_generateToolStack_within_budget [of 100 "[marketingTool]" enterpriseProfile "''marketing''"]
    l e
  show ?thesis by simp
qed





text \<open>
  C6. For a pricing string without a digit, each of the three \<open>extractPrice\<close> copies
  returns 0. (The functions are total on strings: there is no failing branch.)
\<close>

theorem C6_extractPrice_no_digits:
  assumes "\<not> list_ex isDigit text"
  shows "AIRecommendationEngine_extractPrice text = 0 \<and>
         ROICalculator_extractPrice text = 0 \<and>
         ToolStackBuilder_extractPrice text = 0"
  using matchPrice_no_digit [OF assms]
  by (simp add: AIRecommendationEngine_extractPrice_def ROICalculator_extractPrice_def
      ToolStackBuilder_extractPrice_def)

theorem C6_extractPrice_no_digits_witness:
  "\<not> list_ex isDigit ''Contact us'' \<and>
   AIRecommendationEngine_extractPrice ''Contact us'' = 0 \<and>
   ROICalculator_extractPrice ''Contact us'' = 0 \<and>
   ToolStackBuilder_extractPrice ''Contact us'' = 0"
proof -
  have h: "\<not> list_ex isDigit ''Contact us''"
    by (simp add: isDigit_def)
  from C6_extractPrice_no_digits [OF h] h show ?thesis by simp
qed



text \<open>
  C9. Whatever the catalog import yields, a list of tools (possibly empty) or a failure,
  \<open>processUserMessage\<close> answers the message \<open>hello\<close> with the canned greeting, whose
  context type is \<open>greeting\<close>.
\<close>

theorem C9_hello_greeting:
  "processUserMessage ''hello'' catalog = greetingResponse \<and>
   chat_context (processUserMessage ''hello'' catalog) = ContextType ''greeting'' \<and>
   content (processUserMessage ''hello'' catalog) = [TextItem GreetingText]"
  by (simp add: processUserMessage_def Let_def toLowerCase_def lowerChar_def trim_def isSpace_def
      greetings_def greetingResponse_def)

text \<open>
  C10. A message whose lowercased, trimmed text contains a greeting word anywhere is
  answered with the canned greeting, whatever the catalog: the pattern matching and the
  catalog search are not reached. The witness is \<open>machine learning tools\<close>, which contains
  \<open>hi\<close> and would otherwise have matched the education pattern.
\<close>

theorem C10_greeting_substring:
  assumes "list_ex (\<lambda>greeting. str_includes (trim (toLowerCase message)) greeting) greetings"
  shows "processUserMessage message catalog = greetingResponse"
  using assms by (simp add: processUserMessage_def Let_def)

theorem C10_greeting_substring_witness:
  "list_ex (\<lambda>greeting. str_includes (trim (toLowerCase ''machine learning tools'')) greeting)
     greetings \<and>
   str_includes ''machine'' ''hi'' \<and>
   processUserMessage ''machine learning tools'' (Some [marketingTool, codingTool])
     = greetingResponse \<and>
   processUserMessage ''machine learning tools'' None = greetingResponse \<and>
   map_option pat_category
     (find (\<lambda>pat. patternTest pat ''machine learning tools'') searchPatterns)
     = Some ''education''"
proof -
  have h: "list_ex (\<lambda>greeting.
             str_includes (trim (toLowerCase ''machine learning tools'')) greeting) greetings"
    by code_simp
  have i: "str_includes ''machine'' ''hi''"
    by code_simp
  have e: "map_option pat_category
             (find (\<lambda>pat. patternTest pat ''machine learning tools'') searchPatterns)
           = Some ''education''"
    by code_simp
  from C10_greeting_substring [OF h, of "Some [marketingTool, codingTool]"]
    C10_greeting_substring [OF h, of None] h i e
  show ?thesis by blast
qed

end
